theory Spec2Isabelle
  imports Main "HOL-Library.Multiset"
begin

section \<open>Data model\<close>

text \<open>
  One entry of \<^verbatim>\<open>employees.json\<close>, the dictionary built in
  \<^verbatim>\<open>add_faces_gui.py\<close>, lines 81 to 85: the keys \<^verbatim>\<open>"id"\<close>, \<^verbatim>\<open>"name"\<close> and
  \<^verbatim>\<open>"encodings"\<close>. The type \<open>'e\<close> is a face encoding (a vector of floats); the model
  never looks inside one, so \<^verbatim>\<open>enc[0].tolist()\<close> and \<^verbatim>\<open>np.array(enc)\<close>, which only
  change its representation, are the identity. The field \<^verbatim>\<open>id\<close> is \<open>emp_id\<close> here
  (\<open>id\<close> is the identity function of HOL).

  Text is a \<open>string\<close> with one \<open>char\<close> for each code point below 256.
\<close>

record 'e employee =
  emp_id :: string
  emp_name :: string
  emp_encodings :: "'e list"

text \<open>A raised exception, with the text that \<^verbatim>\<open>str(e)\<close> gives.\<close>

datatype exn = Exception string

fun str :: "exn \<Rightarrow> string" where
  "str (Exception m) = m"

section \<open>The store \<^verbatim>\<open>employees.json\<close>\<close>

text \<open>
  A decoded JSON document of any shape; \<open>'n\<close> is the type of its numbers. The two
  functions below give the document that \<^verbatim>\<open>json.dump\<close> writes for a roster: each entry
  is the dictionary of \<^verbatim>\<open>add_faces_gui.py\<close>, lines 81 to 85, and \<open>tolist\<close> is the list of
  numbers of an encoding (\<^verbatim>\<open>enc[0].tolist()\<close>).
\<close>

datatype 'n json =
    JNull
  | JBool bool
  | JNum 'n
  | JStr string
  | JArr "'n json list"
  | JObj "(string \<times> 'n json) list"

definition employee_json :: "('e \<Rightarrow> 'n json) \<Rightarrow> 'e employee \<Rightarrow> 'n json" where
  "employee_json tolist employee =
     JObj [(''id'', JStr (emp_id employee)),
           (''name'', JStr (emp_name employee)),
           (''encodings'', JArr (map tolist (emp_encodings employee)))]"

definition roster_json :: "('e \<Rightarrow> 'n json) \<Rightarrow> 'e employee list \<Rightarrow> 'n json" where
  "roster_json tolist employees = JArr (map (employee_json tolist) employees)"

text \<open>
  What the file holds, as the three library calls of \<^verbatim>\<open>load_employees\<close> see it:
  \<^verbatim>\<open>os.path.exists\<close> is false on \<open>Absent\<close>; \<^verbatim>\<open>open(..., "r")\<close> raises on \<open>Locked\<close>
  (a file that exists and cannot be opened); \<^verbatim>\<open>json.load\<close> raises on \<open>Garbage\<close> (text
  that is not JSON) and returns the document on \<open>Doc d\<close>, whatever its shape. The text
  written by \<^verbatim>\<open>json.dump\<close> is identified with the document it encodes. The type \<open>'d\<close> of
  the documents is \<open>'n json\<close> for a file that may hold any JSON document, and
  \<open>'e employee list\<close> for a file that holds a roster: the document \<open>roster_json tolist r\<close>,
  kept as the roster \<open>r\<close> itself.
\<close>

datatype 'd content = Garbage | Doc 'd

datatype 'd store = Absent | Locked | File "'d content"

fun path_exists :: "'d store \<Rightarrow> bool" where
  "path_exists Absent = False"
| "path_exists Locked = True"
| "path_exists (File c) = True"

fun open_r :: "'d store \<Rightarrow> exn + 'd content" where
  "open_r Absent = Inl (Exception ''No such file or directory'')"
| "open_r Locked = Inl (Exception ''Permission denied'')"
| "open_r (File c) = Inr c"

fun json_load :: "'d content \<Rightarrow> exn + 'd" where
  "json_load Garbage = Inl (Exception ''Expecting value'')"
| "json_load (Doc d) = Inr d"

text \<open>
  \<^verbatim>\<open>load_employees\<close> (the same text in both programs): the body of the \<^verbatim>\<open>try\<close> is
  \<open>load_employees_try\<close>, the \<^verbatim>\<open>except Exception: return []\<close> is the \<open>Inl\<close> case. A
  decoded document is returned as it is; nothing checks that it is a roster. The first
  argument is Python's \<^verbatim>\<open>[]\<close> in the type of the documents: \<open>JArr []\<close> among JSON
  documents, \<open>[]\<close> among rosters.
\<close>

definition load_employees_try :: "'d \<Rightarrow> 'd store \<Rightarrow> exn + 'd" where
  "load_employees_try empty_list f =
     (if path_exists f then
        (case open_r f of
           Inl e \<Rightarrow> Inl e
         | Inr c \<Rightarrow> json_load c)
      else Inr empty_list)"

definition load_employees :: "'d \<Rightarrow> 'd store \<Rightarrow> 'd" where
  "load_employees empty_list f =
     (case load_employees_try empty_list f of
        Inl e \<Rightarrow> empty_list
      | Inr employees \<Rightarrow> employees)"

section \<open>Message boxes\<close>

datatype msg =
    showerror string string
  | showwarning string string
  | showinfo string string

section \<open>Python string methods\<close>

text \<open>
  \<^verbatim>\<open>str.isspace\<close> and \<^verbatim>\<open>str.isdigit\<close> on the code points below 256: the white space is
  9 to 13, 28 to 32, 133 and 160; the digits are 48 to 57 and the superscripts 178, 179
  and 185.
\<close>

definition isspace_char :: "char \<Rightarrow> bool" where
  "isspace_char c =
     (let n = (of_char c :: nat)
      in (9 \<le> n \<and> n \<le> 13) \<or> (28 \<le> n \<and> n \<le> 32) \<or> n = 133 \<or> n = 160)"

definition isdigit_char :: "char \<Rightarrow> bool" where
  "isdigit_char c =
     (let n = (of_char c :: nat)
      in (48 \<le> n \<and> n \<le> 57) \<or> n = 178 \<or> n = 179 \<or> n = 185)"

definition strip :: "string \<Rightarrow> string" where
  "strip s = rev (dropWhile isspace_char (rev (dropWhile isspace_char s)))"

definition isdigit :: "string \<Rightarrow> bool" where
  "isdigit s = (s \<noteq> [] \<and> list_all isdigit_char s)"

fun str_nat :: "nat \<Rightarrow> string" where
  "str_nat n =
     (if n < 10 then [char_of (48 + n)]
      else str_nat (n div 10) @ [char_of (48 + n mod 10)])"

section \<open>Enrollment: \<^verbatim>\<open>AddEmployeeApp\<close>\<close>

text \<open>
  The state the program reads and writes: the store, the two entry fields and the
  message boxes shown so far.
\<close>

record 'e AddEmployeeApp =
  add_json_file :: "'e employee list store"
  name_entry :: string
  id_entry :: string
  messagebox :: "msg list"

text \<open>
  What \<^verbatim>\<open>open(self.json_file, "w")\<close> followed by \<^verbatim>\<open>json.dump\<close> does, decided by the
  operating system: the write succeeds; \<^verbatim>\<open>open\<close> raises and the file is as before;
  or \<^verbatim>\<open>open\<close> has truncated the file and the write raises before the document is
  complete.
\<close>

datatype write_outcome = Written | OpenRaises exn | DumpRaises exn

fun save_employees ::
  "write_outcome \<Rightarrow> 'e employee list \<Rightarrow> 'e AddEmployeeApp \<Rightarrow> 'e AddEmployeeApp" where
  "save_employees Written employees s = s\<lparr>add_json_file := File (Doc employees)\<rparr>"
| "save_employees (OpenRaises e) employees s =
     s\<lparr>messagebox := messagebox s @
        [showerror ''Error'' (''Failed to save employees: '' @ str e)]\<rparr>"
| "save_employees (DumpRaises e) employees s =
     s\<lparr>add_json_file := File Garbage,
       messagebox := messagebox s @
        [showerror ''Error'' (''Failed to save employees: '' @ str e)]\<rparr>"

text \<open>
  The two calls of the library \<^verbatim>\<open>face_recognition\<close> on one path, lines 67 and 68:
  either raises, or the image yields a list of encodings.
\<close>

definition encode_file ::
  "(string \<Rightarrow> exn + 'img) \<Rightarrow> ('img \<Rightarrow> exn + 'e list) \<Rightarrow> string \<Rightarrow> exn + 'e list" where
  "encode_file load_image_file face_encodings file_path =
     (case load_image_file file_path of
        Inl e \<Rightarrow> Inl e
      | Inr img \<Rightarrow> face_encodings img)"

text \<open>The loop of lines 64 to 74 over \<^verbatim>\<open>file_paths\<close>, with \<^verbatim>\<open>encodings\<close> and the boxes.\<close>

fun collect_encodings ::
  "(string \<Rightarrow> exn + 'img) \<Rightarrow> ('img \<Rightarrow> exn + 'e list) \<Rightarrow> string list \<Rightarrow>
     'e list \<times> msg list \<Rightarrow> 'e list \<times> msg list" where
  "collect_encodings lif fe [] (encodings, boxes) = (encodings, boxes)"
| "collect_encodings lif fe (file_path # rest) (encodings, boxes) =
     (case encode_file lif fe file_path of
        Inr enc \<Rightarrow>
          if length enc > 0 then
            collect_encodings lif fe rest (encodings @ [enc ! 0], boxes)
          else
            collect_encodings lif fe rest
              (encodings, boxes @ [showwarning ''Warning'' (''No face detected in '' @ file_path)])
      | Inl e \<Rightarrow>
          collect_encodings lif fe rest
            (encodings,
             boxes @ [showerror ''Error'' (''Failed to process '' @ file_path @ '': '' @ str e)]))"

text \<open>
  \<^verbatim>\<open>upload_images\<close>. Its inputs are the paths the file dialog returned and what the
  libraries and the operating system will answer.
\<close>

definition upload_images ::
  "(string \<Rightarrow> exn + 'img) \<Rightarrow> ('img \<Rightarrow> exn + 'e list) \<Rightarrow> write_outcome \<Rightarrow> string list \<Rightarrow>
     'e AddEmployeeApp \<Rightarrow> 'e AddEmployeeApp" where
  "upload_images lif fe w file_paths s =
     (if file_paths = [] then s
      else
        let name = strip (name_entry s);
            employee_id = strip (id_entry s)
        in
        if name = [] \<or> employee_id = [] then
          s\<lparr>messagebox := messagebox s @
             [showerror ''Error'' ''Please enter both name and employee ID'']\<rparr>
        else if \<not> isdigit employee_id then
          s\<lparr>messagebox := messagebox s @
             [showerror ''Error'' ''Employee ID must be a number'']\<rparr>
        else
          let employees = load_employees [] (add_json_file s) in
          if list_ex (\<lambda>emp. emp_id emp = employee_id) employees then
            s\<lparr>messagebox := messagebox s @
               [showerror ''Error'' ''Employee ID already exists'']\<rparr>
          else
            let (encodings, boxes) = collect_encodings lif fe file_paths ([], messagebox s) in
            if encodings = [] then
              s\<lparr>messagebox := boxes @
                 [showerror ''Error'' ''No valid faces detected in any image'']\<rparr>
            else
              let employees' = employees @
                    [\<lparr>emp_id = employee_id, emp_name = name, emp_encodings = encodings\<rparr>];
                  s' = save_employees w employees' (s\<lparr>messagebox := boxes\<rparr>)
              in s'\<lparr>messagebox := messagebox s' @
                   [showinfo ''Success''
                      (''Employee '' @ name @ '' (ID: '' @ employee_id @ '') added with '' @
                       str_nat (length encodings) @ '' images'')]\<rparr>)"

section \<open>Recognition: \<^verbatim>\<open>RecognizeFaceApp\<close>\<close>

text \<open>
  Modelled from the spec: \<^verbatim>\<open>face_recognition.compare_faces\<close> is a library function,
  not part of the repository. For each known encoding, in order, it says whether its
  distance to the encoding to check is within the tolerance; the program never passes a
  tolerance, so the library's fixed default is used. The distance function and the
  tolerance are parameters, and \<open>\<le>\<close> is the comparison of their type.
\<close>

definition compare_faces ::
  "('e \<Rightarrow> 'e \<Rightarrow> 'd::ord) \<Rightarrow> 'd \<Rightarrow> 'e list \<Rightarrow> 'e \<Rightarrow> bool list" where
  "compare_faces face_distance tolerance known_face_encodings face_encoding_to_check =
     map (\<lambda>known. face_distance known face_encoding_to_check \<le> tolerance)
       known_face_encodings"

text \<open>
  The flowables handed to the PDF library: a paragraph with its style, a table of rows,
  a spacer. The table styles are constants of the layout and are left out.
\<close>

datatype element =
    Paragraph string string
  | Table "string list list"
  | Spacer nat nat

text \<open>
  The state the program reads and writes: the store, the result label and the PDF files
  written, by name.
\<close>

record 'e RecognizeFaceApp =
  json_file :: "'e employee list store"
  result_label :: string
  pdf_files :: "string \<rightharpoonup> element list"

text \<open>The loop over \<^verbatim>\<open>employees\<close> of lines 64 to 69, for one unknown encoding.\<close>

fun recognize_employees ::
  "('e \<Rightarrow> 'e \<Rightarrow> 'd::ord) \<Rightarrow> 'd \<Rightarrow> 'e \<Rightarrow> 'e employee list \<Rightarrow>
     string set \<times> string \<Rightarrow> string set \<times> string" where
  "recognize_employees fd tol unknown_encoding [] (recognized_ids, label) =
     (recognized_ids, label)"
| "recognize_employees fd tol unknown_encoding (employee # rest) (recognized_ids, label) =
     (let known_encodings = emp_encodings employee;
          matches = compare_faces fd tol known_encodings unknown_encoding
      in
      if True \<in> set matches then
        recognize_employees fd tol unknown_encoding rest
          (insert (emp_id employee) recognized_ids,
           ''Recognized: '' @ emp_name employee @ '' (ID: '' @ emp_id employee @ '')'')
      else
        recognize_employees fd tol unknown_encoding rest (recognized_ids, label))"

text \<open>The loop over \<^verbatim>\<open>unknown_encodings\<close> of line 63.\<close>

fun recognize_faces ::
  "('e \<Rightarrow> 'e \<Rightarrow> 'd::ord) \<Rightarrow> 'd \<Rightarrow> 'e list \<Rightarrow> 'e employee list \<Rightarrow>
     string set \<times> string \<Rightarrow> string set \<times> string" where
  "recognize_faces fd tol [] employees st = st"
| "recognize_faces fd tol (unknown_encoding # rest) employees st =
     recognize_faces fd tol rest employees
       (recognize_employees fd tol unknown_encoding employees st)"

text \<open>The two loops of \<^verbatim>\<open>generate_attendance_report\<close>, lines 109 to 112 and 136 to 139.\<close>

fun present_loop ::
  "'e employee list \<Rightarrow> string set \<Rightarrow> string list list \<times> nat \<Rightarrow> string list list \<times> nat" where
  "present_loop [] recognized_ids (present_data, present_count) =
     (present_data, present_count)"
| "present_loop (employee # rest) recognized_ids (present_data, present_count) =
     (if emp_id employee \<in> recognized_ids then
        present_loop rest recognized_ids
          (present_data @ [[emp_id employee, emp_name employee]], present_count + 1)
      else present_loop rest recognized_ids (present_data, present_count))"

fun absent_loop ::
  "'e employee list \<Rightarrow> string set \<Rightarrow> string list list \<times> nat \<Rightarrow> string list list \<times> nat" where
  "absent_loop [] recognized_ids (absent_data, absent_count) =
     (absent_data, absent_count)"
| "absent_loop (employee # rest) recognized_ids (absent_data, absent_count) =
     (if emp_id employee \<notin> recognized_ids then
        absent_loop rest recognized_ids
          (absent_data @ [[emp_id employee, emp_name employee]], absent_count + 1)
      else absent_loop rest recognized_ids (absent_data, absent_count))"

definition present_table :: "'e employee list \<Rightarrow> string set \<Rightarrow> string list list \<times> nat" where
  "present_table employees recognized_ids =
     present_loop employees recognized_ids ([[''ID'', ''Name'']], 0)"

definition absent_table :: "'e employee list \<Rightarrow> string set \<Rightarrow> string list list \<times> nat" where
  "absent_table employees recognized_ids =
     absent_loop employees recognized_ids ([[''ID'', ''Name'']], 0)"

text \<open>\<^verbatim>\<open>timestamp.replace('_', ' ')\<close>.\<close>

definition replace_underscore :: "string \<Rightarrow> string" where
  "replace_underscore t = map (\<lambda>c. if c = CHR ''_'' then CHR '' '' else c) t"

text \<open>
  \<^verbatim>\<open>generate_attendance_report\<close>. The time stamp is what \<^verbatim>\<open>datetime.now().strftime\<close>
  returned; \<open>build\<close> is the exception the PDF library raises, if any.
\<close>

definition report_elements :: "string \<Rightarrow> 'e employee list \<Rightarrow> string set \<Rightarrow> element list" where
  "report_elements timestamp employees recognized_ids =
     (let (present_data, present_count) = present_table employees recognized_ids;
          (absent_data, absent_count) = absent_table employees recognized_ids
      in
      [Paragraph (''Attendance Report - '' @ replace_underscore timestamp) ''Title'',
       Paragraph ''Present Employees'' ''Heading2'',
       (if present_count = 0 then Paragraph ''No employees present'' ''Normal''
        else Table present_data),
       Spacer 1 20,
       Paragraph ''Absent Employees'' ''Heading2'',
       (if absent_count = 0 then Paragraph ''No employees absent'' ''Normal''
        else Table absent_data)])"

definition generate_attendance_report ::
  "string \<Rightarrow> exn option \<Rightarrow> 'e employee list \<Rightarrow> string set \<Rightarrow>
     'e RecognizeFaceApp \<Rightarrow> 'e RecognizeFaceApp" where
  "generate_attendance_report timestamp build employees recognized_ids s =
     (let pdf_file = ''attendance_'' @ timestamp @ ''.pdf'';
          elements = report_elements timestamp employees recognized_ids
      in
      case build of
        None \<Rightarrow>
          s\<lparr>pdf_files := (pdf_files s)(pdf_file \<mapsto> elements),
            result_label := ''Attendance report saved as '' @ pdf_file\<rparr>
      | Some e \<Rightarrow> s\<lparr>result_label := ''Error generating PDF: '' @ str e\<rparr>)"

text \<open>
  \<^verbatim>\<open>recognize_image\<close>. Its inputs are the path the file dialog returned and what the
  libraries will answer.
\<close>

definition recognize_image ::
  "(string \<Rightarrow> exn + 'img) \<Rightarrow> ('img \<Rightarrow> exn + 'e list) \<Rightarrow> ('e \<Rightarrow> 'e \<Rightarrow> 'd::ord) \<Rightarrow> 'd \<Rightarrow>
     string \<Rightarrow> exn option \<Rightarrow> string \<Rightarrow> 'e RecognizeFaceApp \<Rightarrow> 'e RecognizeFaceApp" where
  "recognize_image lif fe fd tol timestamp build file_path s =
     (if file_path = [] then s
      else
        let employees = load_employees [] (json_file s) in
        if employees = [] then s\<lparr>result_label := ''No employees registered''\<rparr>
        else
          (case encode_file lif fe file_path of
             Inl e \<Rightarrow> s\<lparr>result_label := ''Error: '' @ str e\<rparr>
           | Inr unknown_encodings \<Rightarrow>
               if length unknown_encodings = 0 then
                 s\<lparr>result_label := ''No faces detected''\<rparr>
               else
                 let (recognized_ids, label) =
                       recognize_faces fd tol unknown_encodings employees ({}, result_label s)
                 in generate_attendance_report timestamp build employees recognized_ids
                      (s\<lparr>result_label := label\<rparr>)))"

section \<open>The specification's words\<close>

text \<open>
  The specification's notion of a recognized identity, in its own words: at least one of
  its stored embeddings is within the tolerance of at least one query embedding.
\<close>

definition matches_employee ::
  "('e \<Rightarrow> 'e \<Rightarrow> 'd::ord) \<Rightarrow> 'd \<Rightarrow> 'e list \<Rightarrow> 'e employee \<Rightarrow> bool" where
  "matches_employee fd tol unknown_encodings employee =
     list_ex (\<lambda>stored. list_ex (\<lambda>query. fd stored query \<le> tol) unknown_encodings)
       (emp_encodings employee)"

text \<open>
  The specification's enrollment policy, in its own words: every image contributes the
  first of its embeddings when extraction yields one or more, and nothing when extraction
  yields none or fails; the order is the order of the batch.
\<close>

definition first_encodings ::
  "(string \<Rightarrow> exn + 'img) \<Rightarrow> ('img \<Rightarrow> exn + 'e list) \<Rightarrow> string list \<Rightarrow> 'e list" where
  "first_encodings lif fe file_paths =
     concat (map (\<lambda>file_path.
        case encode_file lif fe file_path of
          Inl e \<Rightarrow> []
        | Inr enc \<Rightarrow> take 1 enc) file_paths)"

text \<open>Extraction yields one or more embeddings for the image at this path.\<close>

definition yields_face ::
  "(string \<Rightarrow> exn + 'img) \<Rightarrow> ('img \<Rightarrow> exn + 'e list) \<Rightarrow> string \<Rightarrow> bool" where
  "yields_face lif fe file_path =
     (case encode_file lif fe file_path of
        Inl e \<Rightarrow> False
      | Inr enc \<Rightarrow> enc \<noteq> [])"

text \<open>
  The conditions of the specification's enrollment contract: a non-empty batch, a
  non-empty name, an all-digit id (so a non-empty one) that no entry of the loaded roster
  carries, and at least one embedding collected.
\<close>

definition enrollment_accepted ::
  "(string \<Rightarrow> exn + 'img) \<Rightarrow> ('img \<Rightarrow> exn + 'e list) \<Rightarrow> string list \<Rightarrow>
     'e AddEmployeeApp \<Rightarrow> bool" where
  "enrollment_accepted lif fe file_paths s =
     (file_paths \<noteq> [] \<and> strip (name_entry s) \<noteq> [] \<and> isdigit (strip (id_entry s)) \<and>
      \<not> list_ex (\<lambda>emp. emp_id emp = strip (id_entry s)) (load_employees [] (add_json_file s)) \<and>
      first_encodings lif fe file_paths \<noteq> [])"

text \<open>The identity the contract appends: the entered id and name, the collected embeddings.\<close>

definition new_employee ::
  "(string \<Rightarrow> exn + 'img) \<Rightarrow> ('img \<Rightarrow> exn + 'e list) \<Rightarrow> string list \<Rightarrow>
     'e AddEmployeeApp \<Rightarrow> 'e employee" where
  "new_employee lif fe file_paths s =
     \<lparr>emp_id = strip (id_entry s), emp_name = strip (name_entry s),
      emp_encodings = first_encodings lif fe file_paths\<rparr>"

text \<open>
  An enrollment operation as the user performs it: typing a name and an id into the two
  entries, pressing the button and choosing files; the libraries and the operating system
  answer as the last three fields say. \<open>enroll_all\<close> performs a list of them in turn.
\<close>

record ('img, 'e) enrollment =
  typed_name :: string
  typed_id :: string
  chosen_files :: "string list"
  image_loader :: "string \<Rightarrow> exn + 'img"
  face_encoder :: "'img \<Rightarrow> exn + 'e list"
  write_result :: write_outcome

definition enroll :: "('img, 'e) enrollment \<Rightarrow> 'e AddEmployeeApp \<Rightarrow> 'e AddEmployeeApp" where
  "enroll c s =
     upload_images (image_loader c) (face_encoder c) (write_result c) (chosen_files c)
       (s\<lparr>name_entry := typed_name c, id_entry := typed_id c\<rparr>)"

fun enroll_all :: "('img, 'e) enrollment list \<Rightarrow> 'e AddEmployeeApp \<Rightarrow> 'e AddEmployeeApp" where
  "enroll_all [] s = s"
| "enroll_all (c # cs) s = enroll_all cs (enroll c s)"

section \<open>Sample data\<close>

text \<open>
  A roster of two, with integers standing for encodings and the absolute difference for
  the distance, for the concrete instances below.
\<close>

abbreviation alice :: "int employee" where
  "alice \<equiv> \<lparr>emp_id = ''1'', emp_name = ''Alice'', emp_encodings = [10]\<rparr>"

abbreviation bob :: "int employee" where
  "bob \<equiv> \<lparr>emp_id = ''2'', emp_name = ''Bob'', emp_encodings = [20]\<rparr>"

abbreviation absdiff :: "int \<Rightarrow> int \<Rightarrow> int" where
  "absdiff a b \<equiv> \<bar>a - b\<bar>"

abbreviation office :: "int RecognizeFaceApp" where
  "office \<equiv> \<lparr>json_file = File (Doc [alice, bob]), result_label = [], pdf_files = Map.empty\<rparr>"

text \<open>
  An image loader that fails on one file, an encoder that finds no face in one image and
  two faces in another, and the enrollment form with its entries filled in.
\<close>

abbreviation load_image :: "string \<Rightarrow> exn + string" where
  "load_image \<equiv> \<lambda>file_path.
     if file_path = ''broken.jpg'' then Inl (Exception ''cannot identify image file'')
     else Inr file_path"

abbreviation encode_faces :: "string \<Rightarrow> exn + int list" where
  "encode_faces \<equiv> \<lambda>img.
     if img = ''blank.jpg'' then Inr []
     else if img = ''two.jpg'' then Inr [10, 30]
     else Inr [20]"

abbreviation form :: "string \<Rightarrow> string \<Rightarrow> int employee list store \<Rightarrow> int AddEmployeeApp" where
  "form n i f \<equiv> \<lparr>add_json_file = f, name_entry = n, id_entry = i, messagebox = []\<rparr>"

section \<open>The loops in closed form\<close>

lemma present_loop_eq:
  "present_loop R S (d, c) =
     (d @ map (\<lambda>e. [emp_id e, emp_name e]) (filter (\<lambda>e. emp_id e \<in> S) R),
      c + length (filter (\<lambda>e. emp_id e \<in> S) R))"
  by (induction R arbitrary: d c) auto

lemma absent_loop_eq:
  "absent_loop R S (d, c) =
     (d @ map (\<lambda>e. [emp_id e, emp_name e]) (filter (\<lambda>e. emp_id e \<notin> S) R),
      c + length (filter (\<lambda>e. emp_id e \<notin> S) R))"
  by (induction R arbitrary: d c) auto

lemma True_in_compare_faces:
  "True \<in> set (compare_faces fd tol known u) \<longleftrightarrow> (\<exists>k \<in> set known. fd k u \<le> tol)"
  by (auto simp: compare_faces_def)

lemma recognize_employees_fst:
  "fst (recognize_employees fd tol u R (ids, l)) =
     ids \<union> emp_id ` {e \<in> set R. \<exists>k \<in> set (emp_encodings e). fd k u \<le> tol}"
proof (induction R arbitrary: ids l)
  case Nil
  then show ?case by simp
next
  case (Cons e R)
  show ?case
    by (auto simp: Cons.IH True_in_compare_faces Let_def)
qed

lemma recognize_faces_fst:
  "fst (recognize_faces fd tol us R st) =
     fst st \<union> emp_id ` {e \<in> set R. matches_employee fd tol us e}"
proof (induction us arbitrary: st)
  case Nil
  then show ?case by (simp add: matches_employee_def list_ex_iff)
next
  case (Cons u us)
  obtain ids l where st: "st = (ids, l)" by (cases st)
  show ?case
    unfolding recognize_faces.simps Cons.IH st
    by (auto simp: recognize_employees_fst matches_employee_def list_ex_iff)
qed

lemma matches_employee_iff:
  "matches_employee fd tol us e \<longleftrightarrow>
     (\<exists>stored \<in> set (emp_encodings e). \<exists>query \<in> set us. fd stored query \<le> tol)"
  by (simp add: matches_employee_def list_ex_iff)

lemma recognized_ids_iff:
  "i \<in> fst (recognize_faces fd tol us R ({}, l)) \<longleftrightarrow>
     (\<exists>e \<in> set R. emp_id e = i \<and> matches_employee fd tol us e)"
  by (auto simp: recognize_faces_fst)

lemma distinct_emp_id_eq:
  "distinct (map emp_id R) \<Longrightarrow> e \<in> set R \<Longrightarrow> e' \<in> set R \<Longrightarrow> emp_id e' = emp_id e \<Longrightarrow> e' = e"
  by (meson distinct_map inj_onD)

lemma recognize_image_matching:
  assumes "file_path \<noteq> []" "load_employees [] (json_file s) = R" "R \<noteq> []"
    "encode_file lif fe file_path = Inr us" "us \<noteq> []"
  shows "recognize_image lif fe fd tol ts build file_path s =
      generate_attendance_report ts build R
        (fst (recognize_faces fd tol us R ({}, result_label s)))
        (s\<lparr>result_label := snd (recognize_faces fd tol us R ({}, result_label s))\<rparr>)"
  using assms by (simp add: recognize_image_def Let_def split: prod.split)

lemma generate_attendance_report_json_file:
  "json_file (generate_attendance_report ts build R ids s) = json_file s"
  by (simp add: generate_attendance_report_def Let_def split: option.split)

lemma recognize_image_json_file:
  "json_file (recognize_image lif fe fd tol ts build p s) = json_file s"
  by (simp add: recognize_image_def Let_def generate_attendance_report_json_file
      split: sum.split prod.split)

lemma recognize_faces_fst_label:
  "fst (recognize_faces fd tol us R (ids, l)) = fst (recognize_faces fd tol us R (ids, l'))"
  by (simp add: recognize_faces_fst)

lemma generate_attendance_report_label:
  "generate_attendance_report ts build R ids (s\<lparr>result_label := l\<rparr>) =
   generate_attendance_report ts build R ids s"
  by (simp add: generate_attendance_report_def Let_def split: option.split)

lemma generate_attendance_report_idem:
  "generate_attendance_report ts build R ids (generate_attendance_report ts build R ids s) =
   generate_attendance_report ts build R ids s"
  by (simp add: generate_attendance_report_def Let_def split: option.split)

lemma recognize_image_report:
  assumes "p \<noteq> []" "load_employees [] (json_file s) \<noteq> []"
    "encode_file lif fe p = Inr us" "us \<noteq> []"
  shows "recognize_image lif fe fd tol ts build p s =
      generate_attendance_report ts build (load_employees [] (json_file s))
        (fst (recognize_faces fd tol us (load_employees [] (json_file s)) ({}, []))) s"
proof -
  have "recognize_image lif fe fd tol ts build p s =
      generate_attendance_report ts build (load_employees [] (json_file s))
        (fst (recognize_faces fd tol us (load_employees [] (json_file s)) ({}, result_label s)))
        (s\<lparr>result_label :=
           snd (recognize_faces fd tol us (load_employees [] (json_file s)) ({}, result_label s))\<rparr>)"
    using assms by (intro recognize_image_matching) auto
  also have "\<dots> = generate_attendance_report ts build (load_employees [] (json_file s))
        (fst (recognize_faces fd tol us (load_employees [] (json_file s)) ({}, result_label s))) s"
    by (rule generate_attendance_report_label)
  finally show ?thesis
    by (simp add: recognize_faces_fst_label [of fd tol us _ "{}" "result_label s" "[]"])
qed

lemma recognize_image_idem:
  "recognize_image lif fe fd tol ts build p (recognize_image lif fe fd tol ts build p s) =
   recognize_image lif fe fd tol ts build p s"
proof (cases "p = [] \<or> load_employees [] (json_file s) = []")
  case True
  then show ?thesis by (auto simp: recognize_image_def)
next
  case False
  show ?thesis
  proof (cases "encode_file lif fe p")
    case (Inl e)
    with False show ?thesis by (simp add: recognize_image_def)
  next
    case (Inr us)
    show ?thesis
    proof (cases "us = []")
      case True
      with False Inr show ?thesis by (simp add: recognize_image_def)
    next
      case ne: False
      let ?s' = "recognize_image lif fe fd tol ts build p s"
      have j: "json_file ?s' = json_file s"
        by (rule recognize_image_json_file)
      have 1: "?s' = generate_attendance_report ts build (load_employees [] (json_file s))
          (fst (recognize_faces fd tol us (load_employees [] (json_file s)) ({}, []))) s"
        using False Inr ne by (intro recognize_image_report) auto
      have 2: "recognize_image lif fe fd tol ts build p ?s' =
          generate_attendance_report ts build (load_employees [] (json_file s))
          (fst (recognize_faces fd tol us (load_employees [] (json_file s)) ({}, []))) ?s'"
        using False Inr ne recognize_image_report [of p ?s' lif fe us fd tol ts build]
        by (simp add: j)
      show ?thesis
        by (metis 1 2 generate_attendance_report_idem)
    qed
  qed
qed

lemma recognize_image_label:
  assumes "p \<noteq> []"
  shows "recognize_image lif fe fd tol ts build p (s\<lparr>result_label := l\<rparr>) =
         recognize_image lif fe fd tol ts build p s"
proof (cases "encode_file lif fe p")
  case (Inl e)
  with assms show ?thesis by (simp add: recognize_image_def Let_def)
next
  case (Inr us)
  show ?thesis
  proof (cases "us = [] \<or> load_employees [] (json_file s) = []")
    case True
    with assms Inr show ?thesis by (auto simp: recognize_image_def Let_def)
  next
    case False
    then show ?thesis
      using assms Inr
        recognize_image_report [of p s lif fe us fd tol ts build]
        recognize_image_report [of p "s\<lparr>result_label := l\<rparr>" lif fe us fd tol ts build]
      by (simp add: generate_attendance_report_label)
  qed
qed

section \<open>The store: loading\<close>

text \<open>
  C6, as the program has it. \<^verbatim>\<open>load_employees\<close> returns the decoded document whenever
  the file exists, can be opened and decodes as JSON: the persisted roster when the
  document is one, and any other document unchanged, since its shape is not checked. It
  returns the empty list, never an exception, when the file does not exist, cannot be
  opened or does not decode: every exception of the \<^verbatim>\<open>try\<close> body becomes \<open>[]\<close>. On a
  file that holds a roster, loading the JSON document and loading the roster agree.
\<close>

theorem load_employees_cases:
  "load_employees empty_list f =
     (case f of
        Absent \<Rightarrow> empty_list
      | Locked \<Rightarrow> empty_list
      | File Garbage \<Rightarrow> empty_list
      | File (Doc d) \<Rightarrow> d)
   \<and> (case load_employees_try empty_list f of
        Inl e \<Rightarrow> load_employees empty_list f = empty_list
      | Inr d \<Rightarrow> load_employees empty_list f = d)
   \<and> load_employees (JArr []) (map_store (roster_json tolist) g) =
       roster_json tolist (load_employees [] g)"
proof -
  have a: "load_employees empty_list f =
     (case f of
        Absent \<Rightarrow> empty_list
      | Locked \<Rightarrow> empty_list
      | File Garbage \<Rightarrow> empty_list
      | File (Doc d) \<Rightarrow> d)"
    by (simp add: load_employees_def load_employees_try_def split: store.split content.split)
  have b: "(case load_employees_try empty_list f of
        Inl e \<Rightarrow> load_employees empty_list f = empty_list
      | Inr d \<Rightarrow> load_employees empty_list f = d)"
    by (simp add: load_employees_def split: sum.split)
  have c: "load_employees (JArr []) (map_store (roster_json tolist) g) =
       roster_json tolist (load_employees [] g)"
  proof (cases g)
    case Absent
    then show ?thesis
      by (simp add: load_employees_def load_employees_try_def roster_json_def)
  next
    case Locked
    then show ?thesis
      by (simp add: load_employees_def load_employees_try_def roster_json_def)
  next
    case (File c)
    then show ?thesis
      by (cases c) (simp_all add: load_employees_def load_employees_try_def roster_json_def)
  qed
  from a b c show ?thesis by blast
qed

theorem load_employees_cases_witness:
  "load_employees [] (File (Doc [alice])) = [alice]
   \<and> load_employees [] (File Garbage :: int employee list store) = []
   \<and> load_employees [] (Locked :: int employee list store) = []
   \<and> load_employees [] (Absent :: int employee list store) = []
   \<and> load_employees (JArr []) (File (Doc (JArr [JNum (7::int)]))) = JArr [JNum 7]
   \<and> load_employees (JArr []) (File Garbage :: int json store) = JArr []"
  using load_employees_cases [of "[]" "File (Doc [alice])", THEN conjunct1]
    load_employees_cases [of "[]" "File Garbage :: int employee list store", THEN conjunct1]
    load_employees_cases [of "[]" "Locked :: int employee list store", THEN conjunct1]
    load_employees_cases [of "[]" "Absent :: int employee list store", THEN conjunct1]
    load_employees_cases [of "JArr []" "File (Doc (JArr [JNum (7::int)]))", THEN conjunct1]
    load_employees_cases [of "JArr []" "File Garbage :: int json store", THEN conjunct1]
  by simp

text \<open>
  C6 as stated asks for an empty roster whenever the content is corrupt. A file that
  holds the decodable document \<^verbatim>\<open>{"id": "1"}\<close>, or \<^verbatim>\<open>null\<close>, is no roster, and
  \<^verbatim>\<open>load_employees\<close> returns that document, not the empty list.
\<close>

theorem load_employees_keeps_foreign_document:
  "load_employees (JArr []) (File (Doc (JObj [(''id'', JStr ''1'')] :: int json))) =
     JObj [(''id'', JStr ''1'')]
   \<and> (JObj [(''id'', JStr ''1'')] :: int json) \<noteq> JArr []
   \<and> load_employees (JArr []) (File (Doc (JNull :: int json))) = JNull
   \<and> (JNull :: int json) \<noteq> JArr []"
  by (simp add: load_employees_def load_employees_try_def)

section \<open>Attendance resolution\<close>

text \<open>
  C1. For every roster \<open>R\<close> and every set \<open>S\<close> of recognized ids, the rows of the present
  table (after the heading row) are the \<^verbatim>\<open>[id, name]\<close> rows of exactly the entries of
  \<open>R\<close> whose id is in \<open>S\<close>, in the order of \<open>R\<close>, and the rows of the absent table those of
  the entries whose id is not in \<open>S\<close>; the two counts add up to the length of \<open>R\<close>; the
  two tables together hold the rows of \<open>R\<close>, each as often as in \<open>R\<close>; every entry of \<open>R\<close>
  is in exactly one of them; and ids of \<open>S\<close> that no entry of \<open>R\<close> carries change nothing.
\<close>

theorem attendance_partition:
  "present_table R S =
     ([''ID'', ''Name''] # map (\<lambda>e. [emp_id e, emp_name e]) (filter (\<lambda>e. emp_id e \<in> S) R),
      length (filter (\<lambda>e. emp_id e \<in> S) R))
   \<and> absent_table R S =
     ([''ID'', ''Name''] # map (\<lambda>e. [emp_id e, emp_name e]) (filter (\<lambda>e. emp_id e \<notin> S) R),
      length (filter (\<lambda>e. emp_id e \<notin> S) R))
   \<and> snd (present_table R S) + snd (absent_table R S) = length R
   \<and> mset (tl (fst (present_table R S))) + mset (tl (fst (absent_table R S))) =
       mset (map (\<lambda>e. [emp_id e, emp_name e]) R)
   \<and> (\<forall>e \<in> set R.
        ([emp_id e, emp_name e] \<in> set (tl (fst (present_table R S)))) = (emp_id e \<in> S) \<and>
        ([emp_id e, emp_name e] \<in> set (tl (fst (absent_table R S)))) = (emp_id e \<notin> S))
   \<and> present_table R S = present_table R (S \<inter> emp_id ` set R)
   \<and> absent_table R S = absent_table R (S \<inter> emp_id ` set R)"
proof -
  let ?row = "\<lambda>e::'a employee. [emp_id e, emp_name e]"
  let ?P = "\<lambda>e::'a employee. emp_id e \<in> S"
  have p: "present_table R S = ([''ID'', ''Name''] # map ?row (filter ?P R), length (filter ?P R))"
    by (simp add: present_table_def present_loop_eq)
  have a: "absent_table R S =
      ([''ID'', ''Name''] # map ?row (filter (\<lambda>e. \<not> ?P e) R), length (filter (\<lambda>e. \<not> ?P e) R))"
    by (simp add: absent_table_def absent_loop_eq)
  have len: "snd (present_table R S) + snd (absent_table R S) = length R"
    unfolding p a by (simp add: sum_length_filter_compl)
  have ms: "mset (tl (fst (present_table R S))) + mset (tl (fst (absent_table R S))) =
       mset (map ?row R)"
    unfolding p a by (simp flip: image_mset_union)
  have ex: "\<forall>e \<in> set R.
        (?row e \<in> set (tl (fst (present_table R S)))) = (emp_id e \<in> S) \<and>
        (?row e \<in> set (tl (fst (absent_table R S)))) = (emp_id e \<notin> S)"
    unfolding p a by auto
  have fp: "filter (\<lambda>e. emp_id e \<in> S \<inter> emp_id ` set R) R = filter ?P R"
    by (rule filter_cong) auto
  have fa: "filter (\<lambda>e. emp_id e \<notin> S \<inter> emp_id ` set R) R = filter (\<lambda>e. \<not> ?P e) R"
    by (rule filter_cong) auto
  have ip: "present_table R S = present_table R (S \<inter> emp_id ` set R)"
    by (simp only: present_table_def present_loop_eq fp)
  have ia: "absent_table R S = absent_table R (S \<inter> emp_id ` set R)"
    by (simp only: absent_table_def absent_loop_eq fa)
  from p a len ms ex ip ia show ?thesis by blast
qed

theorem attendance_partition_witness:
  "present_table
     [\<lparr>emp_id = ''1'', emp_name = ''Alice'', emp_encodings = [0::nat]\<rparr>,
      \<lparr>emp_id = ''2'', emp_name = ''Bob'', emp_encodings = [5]\<rparr>] {''1'', ''9''} =
     ([[''ID'', ''Name''], [''1'', ''Alice'']], 1)
   \<and> absent_table
     [\<lparr>emp_id = ''1'', emp_name = ''Alice'', emp_encodings = [0::nat]\<rparr>,
      \<lparr>emp_id = ''2'', emp_name = ''Bob'', emp_encodings = [5]\<rparr>] {''1'', ''9''} =
     ([[''ID'', ''Name''], [''2'', ''Bob'']], 1)"
  using attendance_partition
    [of "[\<lparr>emp_id = ''1'', emp_name = ''Alice'', emp_encodings = [0::nat]\<rparr>,
          \<lparr>emp_id = ''2'', emp_name = ''Bob'', emp_encodings = [5]\<rparr>]" "{''1'', ''9''}"]
  by simp

section \<open>Matching\<close>

text \<open>
  C2. The id \<open>i\<close> is in the set of recognized ids that the two loops build exactly when
  some entry of the roster with the id \<open>i\<close> has a stored encoding whose distance to some
  query encoding is within the tolerance: one pair is enough. For a non-empty roster whose
  ids are pairwise distinct (the roster of the data model) and a non-empty list of query
  encodings, the id of an entry is recognized exactly when one of its own stored encodings
  is within the tolerance of one query encoding. With a non-empty roster and a non-empty
  list of query encodings, \<^verbatim>\<open>recognize_image\<close> hands that set to the report.
\<close>

theorem recognized_iff_match:
  "(i \<in> fst (recognize_faces fd tol us R ({}, l)) \<longleftrightarrow>
      (\<exists>e \<in> set R. emp_id e = i \<and> matches_employee fd tol us e))
   \<and> (R \<noteq> [] \<longrightarrow> us \<noteq> [] \<longrightarrow> distinct (map emp_id R) \<longrightarrow> e \<in> set R \<longrightarrow>
        (emp_id e \<in> fst (recognize_faces fd tol us R ({}, l)) \<longleftrightarrow>
           matches_employee fd tol us e))
   \<and> (matches_employee fd tol us e \<longleftrightarrow>
        (\<exists>stored \<in> set (emp_encodings e). \<exists>query \<in> set us. fd stored query \<le> tol))
   \<and> (file_path \<noteq> [] \<longrightarrow> load_employees [] (json_file s) = R \<longrightarrow> R \<noteq> [] \<longrightarrow>
        encode_file lif fe file_path = Inr us \<longrightarrow> us \<noteq> [] \<longrightarrow>
        recognize_image lif fe fd tol ts build file_path s =
          generate_attendance_report ts build R
            (fst (recognize_faces fd tol us R ({}, result_label s)))
            (s\<lparr>result_label := snd (recognize_faces fd tol us R ({}, result_label s))\<rparr>))"
proof -
  have d: "emp_id e \<in> fst (recognize_faces fd tol us R ({}, l)) \<longleftrightarrow>
           matches_employee fd tol us e"
    if "distinct (map emp_id R)" "e \<in> set R"
    using that distinct_emp_id_eq [OF that(1) that(2)]
    unfolding recognized_ids_iff by blast
  show ?thesis
    using d recognize_image_matching [of file_path s R lif fe us fd tol ts build]
    by (simp only: recognized_ids_iff matches_employee_iff) blast
qed

theorem recognized_iff_match_witness:
  "[alice, bob] \<noteq> [] \<and> [11::int] \<noteq> [] \<and> distinct (map emp_id [alice, bob])
   \<and> alice \<in> set [alice, bob]
   \<and> ''1'' \<in> fst (recognize_faces absdiff 1 [11] [alice, bob] ({}, []))
   \<and> matches_employee absdiff 1 [11] alice
   \<and> ''2'' \<notin> fst (recognize_faces absdiff 1 [11] [alice, bob] ({}, []))
   \<and> result_label (recognize_image (\<lambda>p. Inr p) (\<lambda>img::string. Inr [11]) absdiff 1
        ''2026-01-01_0900'' None ''face.jpg'' office) =
       ''Attendance report saved as attendance_2026-01-01_0900.pdf''"
  using recognized_iff_match [of "''1''" absdiff 1 "[11]" "[alice, bob]" "[]" alice
      "''face.jpg''" office "\<lambda>p. Inr p" "\<lambda>img. Inr [11]" "''2026-01-01_0900''" None]
    recognized_iff_match [of "''2''" absdiff 1 "[11]" "[alice, bob]" "[]" bob
      "''face.jpg''" office "\<lambda>p. Inr p" "\<lambda>img. Inr [11]" "''2026-01-01_0900''" None]
  by (simp add: matches_employee_def load_employees_def load_employees_try_def
      encode_file_def generate_attendance_report_def compare_faces_def Let_def)

text \<open>
  C10. Every recognized id is the id of an entry of the roster. An entry with no stored
  encoding matches no query encoding (the list of comparisons is empty), and an id that
  only entries without stored encodings carry is not recognized; so, in a roster with
  pairwise distinct ids, the id of an entry without stored encodings is not recognized.
\<close>

theorem recognized_subset_roster:
  "fst (recognize_faces fd tol us R ({}, l)) \<subseteq> emp_id ` set R
   \<and> (emp_encodings e = [] \<longrightarrow>
        \<not> matches_employee fd tol us e \<and> compare_faces fd tol (emp_encodings e) u = [])
   \<and> ((\<forall>e \<in> set R. emp_id e = i \<longrightarrow> emp_encodings e = []) \<longrightarrow>
        i \<notin> fst (recognize_faces fd tol us R ({}, l)))
   \<and> (distinct (map emp_id R) \<longrightarrow> e \<in> set R \<longrightarrow> emp_encodings e = [] \<longrightarrow>
        emp_id e \<notin> fst (recognize_faces fd tol us R ({}, l)))"
proof -
  have a: "fst (recognize_faces fd tol us R ({}, l)) \<subseteq> emp_id ` set R"
    by (auto simp: recognize_faces_fst)
  have b: "\<not> matches_employee fd tol us e \<and> compare_faces fd tol (emp_encodings e) u = []"
    if "emp_encodings e = []"
    using that by (simp add: matches_employee_iff compare_faces_def)
  have c: "i \<notin> fst (recognize_faces fd tol us R ({}, l))"
    if "\<forall>e \<in> set R. emp_id e = i \<longrightarrow> emp_encodings e = []" for i
    using that unfolding recognized_ids_iff matches_employee_iff by auto
  have d: "emp_id e \<notin> fst (recognize_faces fd tol us R ({}, l))"
    if "distinct (map emp_id R)" "e \<in> set R" "emp_encodings e = []"
  proof (rule c, intro ballI impI)
    fix e' assume "e' \<in> set R" "emp_id e' = emp_id e"
    then have "e' = e" using distinct_emp_id_eq that by blast
    then show "emp_encodings e' = []" using that by simp
  qed
  from a b c d show ?thesis by blast
qed

theorem recognized_subset_roster_witness:
  "distinct (map emp_id [alice, bob\<lparr>emp_encodings := []\<rparr>])
   \<and> fst (recognize_faces absdiff 1 [20] [alice, bob\<lparr>emp_encodings := []\<rparr>] ({}, [])) = {}
   \<and> ''2'' \<notin> fst (recognize_faces absdiff 1 [20] [alice, bob\<lparr>emp_encodings := []\<rparr>] ({}, []))
   \<and> fst (recognize_faces absdiff 1 [11] [alice, bob] ({}, [])) = {''1''}"
  using recognized_subset_roster [of absdiff 1 "[20]" "[alice, bob\<lparr>emp_encodings := []\<rparr>]" "[]"
      "bob\<lparr>emp_encodings := []\<rparr>" 20 "''2''"]
  by (simp add: compare_faces_def)

text \<open>
  C5. On an empty roster the loops leave the set of recognized ids empty, whatever the
  query encodings, and on an empty list of query encodings they leave it empty, whatever
  the roster. \<^verbatim>\<open>recognize_image\<close> returns before the loops in both cases: with an empty
  roster it only sets the label, without reading the image, and with no query encoding it
  only sets the label; neither result depends on the distance or the tolerance, so no
  comparison is made.
\<close>

theorem empty_inputs_recognize_nothing:
  "fst (recognize_faces fd tol us [] ({}, l)) = {}
   \<and> fst (recognize_faces fd tol [] R ({}, l)) = {}
   \<and> (file_path \<noteq> [] \<longrightarrow> load_employees [] (json_file s) = [] \<longrightarrow>
        recognize_image lif fe fd tol ts build file_path s =
          s\<lparr>result_label := ''No employees registered''\<rparr>)
   \<and> (file_path \<noteq> [] \<longrightarrow> load_employees [] (json_file s) \<noteq> [] \<longrightarrow>
        encode_file lif fe file_path = Inr [] \<longrightarrow>
        recognize_image lif fe fd tol ts build file_path s =
          s\<lparr>result_label := ''No faces detected''\<rparr>)"
  by (simp add: recognize_faces_fst recognize_image_def)


theorem empty_inputs_recognize_nothing_witness:
  "recognize_image (\<lambda>p. Inr p) (\<lambda>img::string. Inr [11]) absdiff 1 ''2026-01-01_0900'' None
     ''face.jpg'' (office\<lparr>json_file := Absent\<rparr>) =
     office\<lparr>json_file := Absent, result_label := ''No employees registered''\<rparr>
   \<and> recognize_image (\<lambda>p. Inr p) (\<lambda>img::string. Inr []) absdiff 1 ''2026-01-01_0900'' None
     ''face.jpg'' office = office\<lparr>result_label := ''No faces detected''\<rparr>"
  using empty_inputs_recognize_nothing [of absdiff 1 "[]" "[]" "[]" "''face.jpg''"
      "office\<lparr>json_file := Absent\<rparr>" "\<lambda>p. Inr p" "\<lambda>img. Inr [11]" "''2026-01-01_0900''" None]
    empty_inputs_recognize_nothing [of absdiff 1 "[]" "[]" "[]" "''face.jpg''"
      office "\<lambda>p. Inr p" "\<lambda>img. Inr []" "''2026-01-01_0900''" None]
  by (simp add: load_employees_def load_employees_try_def encode_file_def)

text \<open>
  C8. \<^verbatim>\<open>recognize_image\<close> leaves the store as it is, so the roster loaded afterwards is
  the roster loaded before; run again with the same inputs on the state it produced, it
  produces that state again (the same label, the same report under the same name); the
  set of recognized ids does not depend on the label the loops start from; and, once a
  path is chosen, nothing it produces depends on the label before the call.
\<close>

theorem matching_pure:
  "json_file (recognize_image lif fe fd tol ts build p s) = json_file s
   \<and> load_employees [] (json_file (recognize_image lif fe fd tol ts build p s)) =
       load_employees [] (json_file s)
   \<and> recognize_image lif fe fd tol ts build p (recognize_image lif fe fd tol ts build p s) =
       recognize_image lif fe fd tol ts build p s
   \<and> fst (recognize_faces fd tol us R (ids, l)) = fst (recognize_faces fd tol us R (ids, l'))
   \<and> (p \<noteq> [] \<longrightarrow>
        recognize_image lif fe fd tol ts build p (s\<lparr>result_label := l\<rparr>) =
        recognize_image lif fe fd tol ts build p s)"
  using recognize_faces_fst_label [of fd tol us R ids l l']
  by (simp add: recognize_image_json_file recognize_image_idem recognize_image_label)

theorem matching_pure_witness:
  "''face.jpg'' \<noteq> []
   \<and> json_file (recognize_image (\<lambda>p. Inr p) (\<lambda>img::string. Inr [11]) absdiff 1
        ''2026-01-01_0900'' None ''face.jpg'' office) = File (Doc [alice, bob])
   \<and> recognize_image (\<lambda>p. Inr p) (\<lambda>img::string. Inr [11]) absdiff 1
        ''2026-01-01_0900'' None ''face.jpg''
        (recognize_image (\<lambda>p. Inr p) (\<lambda>img::string. Inr [11]) absdiff 1
           ''2026-01-01_0900'' None ''face.jpg'' office) =
      recognize_image (\<lambda>p. Inr p) (\<lambda>img::string. Inr [11]) absdiff 1
        ''2026-01-01_0900'' None ''face.jpg'' office"
  using matching_pure [of "\<lambda>p. Inr p" "\<lambda>img::string. Inr [11]" absdiff 1
      "''2026-01-01_0900''" None "''face.jpg''" office]
  by simp

section \<open>Enrollment\<close>

declare str_nat.simps [simp del]

lemma take_1_nth: "xs \<noteq> [] \<Longrightarrow> take (Suc 0) xs = [xs ! 0]"
  by (cases xs) auto

lemma collect_encodings_fst:
  "fst (collect_encodings lif fe file_paths (encodings, boxes)) =
     encodings @ first_encodings lif fe file_paths"
proof (induction file_paths arbitrary: encodings boxes)
  case Nil
  then show ?case by (simp add: first_encodings_def)
next
  case (Cons file_path rest)
  show ?case
  proof (cases "encode_file lif fe file_path")
    case (Inl e)
    then show ?thesis using Cons.IH by (simp add: first_encodings_def)
  next
    case (Inr enc)
    then show ?thesis
      using Cons.IH by (cases "enc = []") (simp_all add: first_encodings_def take_1_nth)
  qed
qed

lemma first_encodings_filter:
  "first_encodings lif fe file_paths =
     map (\<lambda>file_path. case encode_file lif fe file_path of Inr enc \<Rightarrow> enc ! 0)
       (filter (yields_face lif fe) file_paths)"
proof (induction file_paths)
  case Nil
  then show ?case by (simp add: first_encodings_def)
next
  case (Cons file_path rest)
  then show ?case
    by (auto simp: first_encodings_def yields_face_def take_1_nth split: sum.split)
qed

lemma first_encodings_empty_iff:
  "first_encodings lif fe file_paths = [] \<longleftrightarrow>
     (\<forall>file_path \<in> set file_paths. \<not> yields_face lif fe file_path)"
  by (simp add: first_encodings_filter filter_empty_conv)

lemma upload_images_accepted:
  assumes "enrollment_accepted lif fe file_paths s"
  shows "upload_images lif fe w file_paths s =
     (let boxes = snd (collect_encodings lif fe file_paths ([], messagebox s));
          s' = save_employees w
                 (load_employees [] (add_json_file s) @ [new_employee lif fe file_paths s])
                 (s\<lparr>messagebox := boxes\<rparr>)
      in s'\<lparr>messagebox := messagebox s' @
           [showinfo ''Success''
              (''Employee '' @ strip (name_entry s) @ '' (ID: '' @ strip (id_entry s) @
               '') added with '' @ str_nat (length (first_encodings lif fe file_paths)) @
               '' images'')]\<rparr>)"
proof -
  have ne: "strip (id_entry s) \<noteq> []"
    using assms by (auto simp: enrollment_accepted_def isdigit_def)
  obtain encs boxes where c: "collect_encodings lif fe file_paths ([], messagebox s) = (encs, boxes)"
    by (cases "collect_encodings lif fe file_paths ([], messagebox s)")
  have e: "encs = first_encodings lif fe file_paths"
    using collect_encodings_fst [of lif fe file_paths "[]" "messagebox s"] c by simp
  show ?thesis
    using assms ne
    by (simp add: upload_images_def enrollment_accepted_def Let_def c e new_employee_def)
qed

lemma upload_images_rejected:
  assumes "\<not> enrollment_accepted lif fe file_paths s"
  shows "add_json_file (upload_images lif fe w file_paths s) = add_json_file s
    \<and> name_entry (upload_images lif fe w file_paths s) = name_entry s
    \<and> id_entry (upload_images lif fe w file_paths s) = id_entry s"
proof -
  obtain encs boxes where c: "collect_encodings lif fe file_paths ([], messagebox s) = (encs, boxes)"
    by (cases "collect_encodings lif fe file_paths ([], messagebox s)")
  have e: "encs = first_encodings lif fe file_paths"
    using collect_encodings_fst [of lif fe file_paths "[]" "messagebox s"] c by simp
  show ?thesis
    using assms
    by (auto simp: upload_images_def enrollment_accepted_def Let_def c e isdigit_def)
qed

lemma upload_images_store:
  "add_json_file (upload_images lif fe w file_paths s) =
     (if enrollment_accepted lif fe file_paths s then
        (case w of
           Written \<Rightarrow>
             File (Doc (load_employees [] (add_json_file s) @ [new_employee lif fe file_paths s]))
         | OpenRaises e \<Rightarrow> add_json_file s
         | DumpRaises e \<Rightarrow> File Garbage)
      else add_json_file s)"
proof (cases "enrollment_accepted lif fe file_paths s")
  case True
  then show ?thesis
    by (cases w) (simp_all add: upload_images_accepted Let_def)
next
  case False
  then show ?thesis using upload_images_rejected [OF False] by simp
qed


lemma load_employees_simps:
  "load_employees empty_list Absent = empty_list"
  "load_employees empty_list Locked = empty_list"
  "load_employees empty_list (File Garbage) = empty_list"
  "load_employees empty_list (File (Doc d)) = d"
  by (simp_all add: load_employees_def load_employees_try_def)

lemma upload_images_distinct:
  assumes "distinct (map emp_id (load_employees [] (add_json_file s)))"
  shows "distinct (map emp_id (load_employees [] (add_json_file (upload_images lif fe w file_paths s))))"
proof (cases "enrollment_accepted lif fe file_paths s")
  case False
  then show ?thesis using assms by (simp add: upload_images_store)
next
  case True
  then have fresh: "strip (id_entry s) \<notin> emp_id ` set (load_employees [] (add_json_file s))"
    by (auto simp: enrollment_accepted_def list_ex_iff)
  show ?thesis
  proof (cases w)
    case Written
    with True assms fresh show ?thesis
      by (simp add: upload_images_store load_employees_simps new_employee_def)
  next
    case (OpenRaises e)
    with True assms show ?thesis by (simp add: upload_images_store)
  next
    case (DumpRaises e)
    with True show ?thesis by (simp add: upload_images_store load_employees_simps)
  qed
qed

lemma enroll_all_distinct:
  "distinct (map emp_id (load_employees [] (add_json_file s))) \<Longrightarrow>
   distinct (map emp_id (load_employees [] (add_json_file (enroll_all cs s))))"
proof (induction cs arbitrary: s)
  case Nil
  then show ?case by simp
next
  case (Cons c cs)
  have "distinct (map emp_id (load_employees [] (add_json_file (enroll c s))))"
    unfolding enroll_def using Cons.prems by (intro upload_images_distinct) simp
  then show ?case by (simp add: Cons.IH)
qed

lemma upload_images_validation_error:
  assumes "file_paths \<noteq> []"
    and "strip (name_entry s) = [] \<or> strip (id_entry s) = [] \<or> \<not> isdigit (strip (id_entry s))
         \<or> strip (id_entry s) \<in> emp_id ` set (load_employees [] (add_json_file s))"
  shows "\<exists>text. upload_images lif fe w file_paths s =
           s\<lparr>messagebox := messagebox s @ [showerror ''Error'' text]\<rparr>"
  using assms by (auto simp: upload_images_def Let_def list_ex_iff)

lemma validation_error_not_accepted:
  assumes "strip (name_entry s) = [] \<or> strip (id_entry s) = [] \<or> \<not> isdigit (strip (id_entry s))
         \<or> strip (id_entry s) \<in> emp_id ` set (load_employees [] (add_json_file s))"
  shows "\<not> enrollment_accepted lif fe file_paths s"
  using assms by (auto simp: enrollment_accepted_def list_ex_iff isdigit_def)

lemma upload_images_no_faces:
  assumes "file_paths \<noteq> []" "strip (name_entry s) \<noteq> []" "isdigit (strip (id_entry s))"
    "strip (id_entry s) \<notin> emp_id ` set (load_employees [] (add_json_file s))"
    "first_encodings lif fe file_paths = []"
  shows "upload_images lif fe w file_paths s =
     s\<lparr>messagebox := snd (collect_encodings lif fe file_paths ([], messagebox s)) @
         [showerror ''Error'' ''No valid faces detected in any image'']\<rparr>"
proof -
  obtain encs boxes where c: "collect_encodings lif fe file_paths ([], messagebox s) = (encs, boxes)"
    by (cases "collect_encodings lif fe file_paths ([], messagebox s)")
  have e: "encs = first_encodings lif fe file_paths"
    using collect_encodings_fst [of lif fe file_paths "[]" "messagebox s"] c by simp
  have f: "\<not> list_ex (\<lambda>emp. emp_id emp = strip (id_entry s)) (load_employees [] (add_json_file s))"
    using assms(4) unfolding list_ex_iff by (metis imageI)
  have ne: "strip (id_entry s) \<noteq> []"
    using assms(3) by (auto simp: isdigit_def)
  show ?thesis
    using assms(1,2,3,5) f ne by (simp add: upload_images_def Let_def c e)
qed

text \<open>
  C3. If the ids of the roster in the store are pairwise distinct, they still are after
  any list of enrollment operations; in particular every roster reached from a store that
  does not exist yet has pairwise distinct ids. When the name or the id is empty after
  stripping, or the id is not all digits, or an entry of the loaded roster carries the
  id, \<^verbatim>\<open>upload_images\<close> leaves the store, the roster loaded from it and both entries
  as they are, and, files having been chosen, the only change is one error box.
\<close>

theorem enrollment_unique_ids:
  "(distinct (map emp_id (load_employees [] (add_json_file s))) \<longrightarrow>
      distinct (map emp_id (load_employees [] (add_json_file (enroll_all cs s)))))
   \<and> (add_json_file s = Absent \<longrightarrow>
      distinct (map emp_id (load_employees [] (add_json_file (enroll_all cs s)))))
   \<and> (strip (name_entry s) = [] \<or> strip (id_entry s) = [] \<or> \<not> isdigit (strip (id_entry s))
        \<or> strip (id_entry s) \<in> emp_id ` set (load_employees [] (add_json_file s)) \<longrightarrow>
       add_json_file (upload_images lif fe w file_paths s) = add_json_file s
       \<and> load_employees [] (add_json_file (upload_images lif fe w file_paths s)) =
           load_employees [] (add_json_file s)
       \<and> name_entry (upload_images lif fe w file_paths s) = name_entry s
       \<and> id_entry (upload_images lif fe w file_paths s) = id_entry s
       \<and> (file_paths \<noteq> [] \<longrightarrow>
            (\<exists>text. upload_images lif fe w file_paths s =
               s\<lparr>messagebox := messagebox s @ [showerror ''Error'' text]\<rparr>)))"
proof (intro conjI impI)
  assume "distinct (map emp_id (load_employees [] (add_json_file s)))"
  then show "distinct (map emp_id (load_employees [] (add_json_file (enroll_all cs s))))"
    by (rule enroll_all_distinct)
next
  assume "add_json_file s = Absent"
  then have "distinct (map emp_id (load_employees [] (add_json_file s)))"
    by (simp add: load_employees_simps)
  then show "distinct (map emp_id (load_employees [] (add_json_file (enroll_all cs s))))"
    by (rule enroll_all_distinct)
next
  assume c: "strip (name_entry s) = [] \<or> strip (id_entry s) = [] \<or> \<not> isdigit (strip (id_entry s))
        \<or> strip (id_entry s) \<in> emp_id ` set (load_employees [] (add_json_file s))"
  note r = upload_images_rejected [OF validation_error_not_accepted [OF c, where lif = lif and fe = fe
      and file_paths = file_paths], where w = w]
  from r show "add_json_file (upload_images lif fe w file_paths s) = add_json_file s" by simp
  from r show "load_employees [] (add_json_file (upload_images lif fe w file_paths s)) =
           load_employees [] (add_json_file s)" by simp
  from r show "name_entry (upload_images lif fe w file_paths s) = name_entry s" by simp
  from r show "id_entry (upload_images lif fe w file_paths s) = id_entry s" by simp
  assume "file_paths \<noteq> []"
  then show "\<exists>text. upload_images lif fe w file_paths s =
               s\<lparr>messagebox := messagebox s @ [showerror ''Error'' text]\<rparr>"
    using c by (rule upload_images_validation_error)
qed

theorem enrollment_unique_ids_witness:
  "distinct (map emp_id (load_employees [] (add_json_file (form [] [] Absent))))
   \<and> load_employees [] (add_json_file (enroll_all
        [\<lparr>typed_name = ''Alice'', typed_id = ''1'', chosen_files = [''one.jpg''],
          image_loader = load_image, face_encoder = encode_faces, write_result = Written\<rparr>,
         \<lparr>typed_name = ''Bob'', typed_id = ''1'', chosen_files = [''two.jpg''],
          image_loader = load_image, face_encoder = encode_faces, write_result = Written\<rparr>]
        (form [] [] Absent))) =
       [\<lparr>emp_id = ''1'', emp_name = ''Alice'', emp_encodings = [20]\<rparr>]
   \<and> strip ''1'' \<in> emp_id ` set (load_employees [] (File (Doc [alice])))
   \<and> upload_images load_image encode_faces Written [''two.jpg'']
        (form ''Bob'' ''1'' (File (Doc [alice]))) =
      \<lparr>add_json_file = File (Doc [alice]), name_entry = ''Bob'', id_entry = ''1'',
       messagebox = [showerror ''Error'' ''Employee ID already exists'']\<rparr>"
proof -
  have a: "distinct (map emp_id (load_employees [] (add_json_file (form [] [] Absent))))"
    by (simp add: load_employees_def load_employees_try_def)
  have b: "strip ''1'' \<in> emp_id ` set (load_employees [] (File (Doc [alice])))"
    by (simp add: strip_def isspace_char_def load_employees_def load_employees_try_def)
  have c: "load_employees [] (add_json_file (enroll_all
        [\<lparr>typed_name = ''Alice'', typed_id = ''1'', chosen_files = [''one.jpg''],
          image_loader = load_image, face_encoder = encode_faces, write_result = Written\<rparr>,
         \<lparr>typed_name = ''Bob'', typed_id = ''1'', chosen_files = [''two.jpg''],
          image_loader = load_image, face_encoder = encode_faces, write_result = Written\<rparr>]
        (form [] [] Absent))) =
       [\<lparr>emp_id = ''1'', emp_name = ''Alice'', emp_encodings = [20]\<rparr>]"
    by (simp add: enroll_def upload_images_def Let_def strip_def isspace_char_def isdigit_def
        isdigit_char_def load_employees_def load_employees_try_def encode_file_def)
  have d: "upload_images load_image encode_faces Written [''two.jpg'']
        (form ''Bob'' ''1'' (File (Doc [alice]))) =
      \<lparr>add_json_file = File (Doc [alice]), name_entry = ''Bob'', id_entry = ''1'',
       messagebox = [showerror ''Error'' ''Employee ID already exists'']\<rparr>"
    by (simp add: upload_images_def Let_def strip_def isspace_char_def isdigit_def
        isdigit_char_def load_employees_def load_employees_try_def)
  show ?thesis
    using a b c d
      enrollment_unique_ids [of "form [] [] Absent"
        "[\<lparr>typed_name = ''Alice'', typed_id = ''1'', chosen_files = [''one.jpg''],
          image_loader = load_image, face_encoder = encode_faces, write_result = Written\<rparr>,
         \<lparr>typed_name = ''Bob'', typed_id = ''1'', chosen_files = [''two.jpg''],
          image_loader = load_image, face_encoder = encode_faces, write_result = Written\<rparr>]"]
      enrollment_unique_ids [of "form ''Bob'' ''1'' (File (Doc [alice]))" "[]"
        load_image encode_faces Written "[''two.jpg'']"]
    by simp
qed

text \<open>
  C4, as the program has it. When no image of the batch yields an embedding (every
  extraction fails or finds no face), the enrollment is rejected: no identity is added,
  the store and the roster loaded from it are unchanged, and, the other checks passed, the
  only effect is the per-image boxes and the final error box. The store is written by
  nothing but the one call of \<^verbatim>\<open>save_employees\<close> of an accepted enrollment, after the
  whole batch has been processed: an enrollment that is not accepted leaves the store as
  it is, so no per-image failure leaves it in an intermediate state. When that write
  succeeds the store holds the loaded roster with the new identity appended, and when the
  file cannot be opened for writing the store is as before. Nothing is said of a write
  that fails midway.
\<close>

theorem enrollment_atomic:
  "(first_encodings lif fe file_paths = [] \<longrightarrow>
      add_json_file (upload_images lif fe w file_paths s) = add_json_file s
      \<and> load_employees [] (add_json_file (upload_images lif fe w file_paths s)) =
          load_employees [] (add_json_file s))
   \<and> (first_encodings lif fe file_paths = [] \<longleftrightarrow>
        (\<forall>file_path \<in> set file_paths.
           case encode_file lif fe file_path of Inl e \<Rightarrow> True | Inr enc \<Rightarrow> enc = []))
   \<and> (file_paths \<noteq> [] \<longrightarrow> strip (name_entry s) \<noteq> [] \<longrightarrow> isdigit (strip (id_entry s)) \<longrightarrow>
       strip (id_entry s) \<notin> emp_id ` set (load_employees [] (add_json_file s)) \<longrightarrow>
       first_encodings lif fe file_paths = [] \<longrightarrow>
         upload_images lif fe w file_paths s =
           s\<lparr>messagebox := snd (collect_encodings lif fe file_paths ([], messagebox s)) @
               [showerror ''Error'' ''No valid faces detected in any image'']\<rparr>)
   \<and> add_json_file (upload_images lif fe w file_paths s) =
       (if enrollment_accepted lif fe file_paths s then
          add_json_file
            (save_employees w
               (load_employees [] (add_json_file s) @ [new_employee lif fe file_paths s]) s)
        else add_json_file s)
   \<and> (enrollment_accepted lif fe file_paths s \<longrightarrow>
        add_json_file (upload_images lif fe Written file_paths s) =
          File (Doc (load_employees [] (add_json_file s) @ [new_employee lif fe file_paths s]))
        \<and> add_json_file (upload_images lif fe (OpenRaises x) file_paths s) = add_json_file s)"
proof -
  have a: "add_json_file (upload_images lif fe w file_paths s) = add_json_file s"
    if "first_encodings lif fe file_paths = []"
    using that by (simp add: upload_images_store enrollment_accepted_def)
  have b: "first_encodings lif fe file_paths = [] \<longleftrightarrow>
        (\<forall>file_path \<in> set file_paths.
           case encode_file lif fe file_path of Inl e \<Rightarrow> True | Inr enc \<Rightarrow> enc = [])"
    by (auto simp: first_encodings_empty_iff yields_face_def split: sum.splits)
  show ?thesis
  proof (intro conjI impI)
    assume "first_encodings lif fe file_paths = []"
    then show "add_json_file (upload_images lif fe w file_paths s) = add_json_file s"
      and "load_employees [] (add_json_file (upload_images lif fe w file_paths s)) =
          load_employees [] (add_json_file s)"
      by (simp_all add: a)
  next
    show "first_encodings lif fe file_paths = [] \<longleftrightarrow>
        (\<forall>file_path \<in> set file_paths.
           case encode_file lif fe file_path of Inl e \<Rightarrow> True | Inr enc \<Rightarrow> enc = [])"
      by (rule b)
  next
    assume "file_paths \<noteq> []" "strip (name_entry s) \<noteq> []" "isdigit (strip (id_entry s))"
      "strip (id_entry s) \<notin> emp_id ` set (load_employees [] (add_json_file s))"
      "first_encodings lif fe file_paths = []"
    then show "upload_images lif fe w file_paths s =
           s\<lparr>messagebox := snd (collect_encodings lif fe file_paths ([], messagebox s)) @
               [showerror ''Error'' ''No valid faces detected in any image'']\<rparr>"
      by (rule upload_images_no_faces)
  next
    show "add_json_file (upload_images lif fe w file_paths s) =
       (if enrollment_accepted lif fe file_paths s then
          add_json_file
            (save_employees w
               (load_employees [] (add_json_file s) @ [new_employee lif fe file_paths s]) s)
        else add_json_file s)"
      by (cases w) (simp_all add: upload_images_store)
  next
    assume "enrollment_accepted lif fe file_paths s"
    then show "add_json_file (upload_images lif fe Written file_paths s) =
          File (Doc (load_employees [] (add_json_file s) @ [new_employee lif fe file_paths s]))"
      and "add_json_file (upload_images lif fe (OpenRaises x) file_paths s) = add_json_file s"
      by (simp_all add: upload_images_store)
  qed
qed

theorem enrollment_atomic_witness:
  "first_encodings load_image encode_faces [''blank.jpg'', ''broken.jpg''] = []
   \<and> upload_images load_image encode_faces Written [''blank.jpg'', ''broken.jpg'']
        (form ''Bob'' ''2'' (File (Doc [alice]))) =
      \<lparr>add_json_file = File (Doc [alice]), name_entry = ''Bob'', id_entry = ''2'',
       messagebox =
         [showwarning ''Warning'' ''No face detected in blank.jpg'',
          showerror ''Error'' ''Failed to process broken.jpg: cannot identify image file'',
          showerror ''Error'' ''No valid faces detected in any image'']\<rparr>"
proof -
  have a: "first_encodings load_image encode_faces [''blank.jpg'', ''broken.jpg''] = []"
    by (simp add: first_encodings_def encode_file_def)
  have b: "strip ''Bob'' \<noteq> []" "isdigit (strip ''2'')"
    "strip ''2'' \<notin> emp_id ` set (load_employees [] (File (Doc [alice])))"
    by (simp_all add: strip_def isspace_char_def isdigit_def isdigit_char_def
        load_employees_def load_employees_try_def)
  show ?thesis
    using a b enrollment_atomic [of load_image encode_faces "[''blank.jpg'', ''broken.jpg'']"
        Written "form ''Bob'' ''2'' (File (Doc [alice]))"]
    by (simp add: encode_file_def)
qed

text \<open>
  C4 as stated has the roster mutated and persisted only on full success. When the write
  of an accepted enrollment fails midway, the file has already been truncated: the roster
  that was stored is lost and the new identity is not stored, although the enrollment did
  not succeed.
\<close>

theorem failed_write_loses_roster:
  "load_employees [] (File (Doc [alice])) = [alice]
   \<and> enrollment_accepted load_image encode_faces [''one.jpg'']
       (form ''Bob'' ''2'' (File (Doc [alice])))
   \<and> add_json_file
       (upload_images load_image encode_faces (DumpRaises (Exception ''No space left on device''))
          [''one.jpg''] (form ''Bob'' ''2'' (File (Doc [alice])))) = File Garbage
   \<and> load_employees []
       (add_json_file
          (upload_images load_image encode_faces
             (DumpRaises (Exception ''No space left on device''))
             [''one.jpg''] (form ''Bob'' ''2'' (File (Doc [alice]))))) = []"
proof -
  have a: "enrollment_accepted load_image encode_faces [''one.jpg'']
       (form ''Bob'' ''2'' (File (Doc [alice])))"
    by (simp add: enrollment_accepted_def strip_def isspace_char_def isdigit_def
        isdigit_char_def load_employees_def load_employees_try_def first_encodings_def
        encode_file_def)
  show ?thesis
    using a by (simp add: upload_images_store load_employees_simps)
qed

text \<open>
  C7. The encodings the loop collects are the first embedding of every image whose
  extraction yields one or more, in the order of the batch, one for each such image; an
  accepted enrollment stores the new identity with exactly these embeddings, and there is
  at least one.
\<close>

theorem first_embedding_per_image:
  "fst (collect_encodings lif fe file_paths ([], boxes)) = first_encodings lif fe file_paths
   \<and> first_encodings lif fe file_paths =
       map (\<lambda>file_path. case encode_file lif fe file_path of Inr enc \<Rightarrow> enc ! 0)
         (filter (yields_face lif fe) file_paths)
   \<and> length (first_encodings lif fe file_paths) =
       length (filter (yields_face lif fe) file_paths)
   \<and> (enrollment_accepted lif fe file_paths s \<longrightarrow>
        add_json_file (upload_images lif fe Written file_paths s) =
          File (Doc (load_employees [] (add_json_file s) @ [new_employee lif fe file_paths s]))
        \<and> emp_encodings (new_employee lif fe file_paths s) = first_encodings lif fe file_paths
        \<and> 1 \<le> length (emp_encodings (new_employee lif fe file_paths s)))"
proof -
  have l: "1 \<le> length (emp_encodings (new_employee lif fe file_paths s))"
    if "enrollment_accepted lif fe file_paths s"
    using that by (cases "first_encodings lif fe file_paths")
      (simp_all add: enrollment_accepted_def new_employee_def)
  show ?thesis
    using l collect_encodings_fst [of lif fe file_paths "[]" boxes]
      first_encodings_filter [of lif fe file_paths]
    by (simp add: upload_images_store new_employee_def)
qed

theorem first_embedding_per_image_witness:
  "enrollment_accepted load_image encode_faces
     [''two.jpg'', ''blank.jpg'', ''broken.jpg'', ''one.jpg''] (form '' Alice '' ''1'' Absent)
   \<and> add_json_file (upload_images load_image encode_faces Written
        [''two.jpg'', ''blank.jpg'', ''broken.jpg'', ''one.jpg''] (form '' Alice '' ''1'' Absent)) =
      File (Doc [\<lparr>emp_id = ''1'', emp_name = ''Alice'', emp_encodings = [10, 20]\<rparr>])"
proof -
  have a: "enrollment_accepted load_image encode_faces
     [''two.jpg'', ''blank.jpg'', ''broken.jpg'', ''one.jpg''] (form '' Alice '' ''1'' Absent)"
    by (simp add: enrollment_accepted_def strip_def isspace_char_def isdigit_def
        isdigit_char_def load_employees_def load_employees_try_def first_encodings_def
        encode_file_def)
  show ?thesis
    using a first_embedding_per_image [of load_image encode_faces
        "[''two.jpg'', ''blank.jpg'', ''broken.jpg'', ''one.jpg'']" "[]"
        "form '' Alice '' ''1'' Absent"]
    by (simp add: new_employee_def strip_def isspace_char_def load_employees_def
        load_employees_try_def first_encodings_def encode_file_def)
qed

text \<open>
  C9, as the program has it. With an empty selection of files \<^verbatim>\<open>upload_images\<close> returns
  at once: nothing is read, no box is shown, and the state is unchanged, whatever the
  entries hold.
\<close>

theorem empty_batch_ignored:
  "upload_images lif fe w [] s = s"
  by (simp add: upload_images_def)


theorem empty_batch_ignored_witness:
  "upload_images load_image encode_faces Written [] (form [] [] (File (Doc [alice]))) =
     form [] [] (File (Doc [alice]))"
  using empty_batch_ignored [of load_image encode_faces Written "form [] [] (File (Doc [alice]))"]
  by simp

text \<open>
  C9 as stated asks for an error reported with a reason; with an empty selection and
  valid entries no box is shown.
\<close>

theorem empty_batch_reports_nothing:
  "messagebox (upload_images load_image encode_faces Written [] (form ''Alice'' ''1'' Absent)) = []"
  by (simp add: upload_images_def)

end
